theory Spec2Isabelle
  imports Complex_Main
begin

section \<open>Values, exceptions and the outside world\<close>

text \<open>
  The module \<^verbatim>\<open>frd_stac/utils/cogs.py\<close> describes a Cloud-Optimized GeoTIFF and turns the
  description into a STAC item. All its work is done by calls into libraries (rasterio, pyproj,
  shapely, pystac, numpy, matplotlib) and into the sibling module \<^verbatim>\<open>s3_utils\<close>. Those
  calls are parameters of the model, collected in the record \<open>env\<close>; what the module itself
  does (evaluation order, indexing, exception handling, the clock, the console, the files it
  writes) is written out.

  Coordinates and pixel sizes are Python floats. The module does no arithmetic on them except
  the two quotients of \<^verbatim>\<open>create_thumbnail\<close>; they are modelled as reals.
\<close>

type_synonym coord = real

text \<open>A raised exception: its class name and its message (what \<^verbatim>\<open>str(e)\<close> prints).\<close>

datatype exn = PyException (exn_class: string) (exn_msg: string)

text \<open>A timezone-aware \<^verbatim>\<open>datetime\<close>, as microseconds since the epoch.\<close>

datatype datetime = Datetime int

text \<open>
  A pixel value or a nodata value: a number, an infinity or NaN. The only operation the module
  applies to pixels is numpy's elementwise \<^verbatim>\<open>==\<close>.
\<close>

datatype number = Finite real | PosInf | NegInf | NaN

type_synonym band = "number list list"

datatype affine = Affine real real real real real real

datatype resampling = Resampling_average

datatype polygon = Polygon (shell: "coord list list")

datatype geojson = GeoJSON (geo_type: string) (coordinates: "(coord \<times> coord) list list")

type_synonym transformer = "coord \<Rightarrow> coord \<Rightarrow> coord \<times> coord"

text \<open>An opened rasterio dataset: the attributes and reads the module uses.\<close>

record dataset =
  ds_bounds :: "coord \<times> coord \<times> coord \<times> coord"
  ds_crs :: "string option"
  ds_tags :: "string \<Rightarrow> (string \<times> string) list"
  ds_res :: "coord \<times> coord"
  ds_width :: int
  ds_height :: int
  ds_count :: nat
  ds_dtype :: string
  ds_transform :: affine
  ds_nodatavals :: "number option list"
  ds_read :: "exn + band list"

text \<open>
  The mutable outside world: how many times the clock has been read, the lines printed to the
  console, and the files written.
\<close>

record world =
  ticks :: nat
  stdout :: "string list"
  files :: "string \<rightharpoonup> nat list"

text \<open>
  The library calls. \<open>clock n\<close> is what the \<open>n\<close>-th call of
  \<^verbatim>\<open>datetime.now(tz=timezone.utc)\<close> returns. \<open>get_object_datetime\<close> and
  \<open>split_s3_path\<close> belong to \<^verbatim>\<open>s3_utils\<close>.
\<close>

record env =
  clock :: "nat \<Rightarrow> datetime"
  rasterio_open :: "string \<Rightarrow> exn + dataset"
  from_crs :: "string \<Rightarrow> string \<Rightarrow> bool \<Rightarrow> exn + transformer"
  shapely_mapping :: "polygon \<Rightarrow> geojson"
  get_object_datetime :: "string \<Rightarrow> string \<Rightarrow> exn + datetime"
  split_s3_path :: "string \<Rightarrow> exn + string \<times> string"
  affine_scale :: "affine \<Rightarrow> real \<Rightarrow> real \<Rightarrow> affine"
  affine_mul :: "affine \<Rightarrow> affine \<Rightarrow> affine"
  np_uninitialised :: number
  reproject :: "band \<Rightarrow> band \<Rightarrow> affine \<Rightarrow> string option \<Rightarrow> affine \<Rightarrow> string option
    \<Rightarrow> resampling \<Rightarrow> exn + band"
  imsave :: "string \<Rightarrow> band \<Rightarrow> string \<Rightarrow> exn + nat list"
  datetime_to_str :: "datetime \<Rightarrow> string"

subsection \<open>Computations that may raise and may change the world\<close>

type_synonym 'a io = "world \<Rightarrow> (exn + 'a) \<times> world"

definition return_io :: "'a \<Rightarrow> 'a io" where
  "return_io x w = (Inr x, w)"

definition lift_io :: "exn + 'a \<Rightarrow> 'a io" where
  "lift_io r w = (r, w)"

definition bind_io :: "'a io \<Rightarrow> ('a \<Rightarrow> 'b io) \<Rightarrow> 'b io" where
  "bind_io m f w = (case m w of (Inl e, w') \<Rightarrow> (Inl e, w') | (Inr x, w') \<Rightarrow> f x w')"

text \<open>\<^verbatim>\<open>try: m  except Exception as e: h(e)\<close>\<close>

definition try_except :: "'a io \<Rightarrow> (exn \<Rightarrow> 'a io) \<Rightarrow> 'a io" where
  "try_except m h w = (case m w of (Inl e, w') \<Rightarrow> h e w' | (Inr x, w') \<Rightarrow> (Inr x, w'))"

definition datetime_now :: "env \<Rightarrow> datetime io" where
  "datetime_now E w = (Inr (clock E (ticks w)), w\<lparr>ticks := Suc (ticks w)\<rparr>)"

definition print :: "string \<Rightarrow> unit io" where
  "print s w = (Inr (), w\<lparr>stdout := stdout w @ [s]\<rparr>)"

text \<open>\<^verbatim>\<open>xs[i]\<close> for a literal index \<open>i \<ge> 0\<close>.\<close>

definition py_index :: "'a list \<Rightarrow> nat \<Rightarrow> exn + 'a" where
  "py_index xs i =
     (if i < length xs then Inr (xs ! i)
      else Inl (PyException ''IndexError'' ''list index out of range''))"

section \<open>The class COG\<close>

text \<open>What a caller may pass as \<^verbatim>\<open>temporal\<close>: the parameter is untyped at run time.\<close>

datatype temporal_arg =
  TemporalNone
  | TemporalStr string
  | TemporalDatetime datetime
  | TemporalTags "(string \<times> string) list"

text \<open>
  The attributes in the order \<^verbatim>\<open>__init__\<close> assigns them. \<open>COG_attrs\<close> is the object
  after line 41, when \<^verbatim>\<open>_create_footprint\<close> runs on it; \<open>COG\<close> is the finished object.
  The field \<open>bbox\<close> is the attribute \<^verbatim>\<open>_bbox\<close>, which the property \<^verbatim>\<open>bbox\<close> returns.
\<close>

record COG_attrs =
  uri :: string
  bbox :: "coord list"
  temporal :: datetime
  resolution :: "coord \<times> coord"
  projection :: string

record COG = COG_attrs +
  footprint_4326 :: geojson
  cmap :: string

text \<open>The property \<^verbatim>\<open>bbox_4326\<close> (lines 49-57).\<close>

definition bbox_4326 :: "env \<Rightarrow> 'a COG_attrs_scheme \<Rightarrow> coord list io" where
  "bbox_4326 E self =
     bind_io (lift_io (from_crs E (projection self) ''epsg:4326'' True)) (\<lambda>transformer.
     bind_io (lift_io (py_index (bbox self) 0)) (\<lambda>b0.
     bind_io (lift_io (py_index (bbox self) 1)) (\<lambda>b1.
     let p = transformer b0 b1 in
     bind_io (lift_io (py_index (bbox self) 2)) (\<lambda>b2.
     bind_io (lift_io (py_index (bbox self) 3)) (\<lambda>b3.
     let q = transformer b2 b3 in
     return_io ([fst p, snd p] @ [fst q, snd q]))))))"

text \<open>
  The same property read on a live object. A Python method receives the object itself and
  may assign its attributes, so a read is a step on the pair of the object and the world.
  Lines 49-57 contain no assignment to an attribute of \<^verbatim>\<open>self\<close>: the object that comes
  out is the one that went in.
\<close>

definition bbox_4326_access ::
  "env \<Rightarrow> 'a COG_attrs_scheme \<times> world \<Rightarrow> (exn + coord list) \<times> ('a COG_attrs_scheme \<times> world)"
where
  "bbox_4326_access E s =
     (case s of (self, w) \<Rightarrow>
        (case bbox_4326 E self w of (r, w') \<Rightarrow> (r, (self, w'))))"

text \<open>
  \<^verbatim>\<open>_create_footprint\<close> (lines 59-70): the property is read eight times, in this order,
  and each value read is indexed.
\<close>

definition bbox_4326_at :: "env \<Rightarrow> 'a COG_attrs_scheme \<Rightarrow> nat \<Rightarrow> coord io" where
  "bbox_4326_at E self i = bind_io (bbox_4326 E self) (\<lambda>b. lift_io (py_index b i))"

definition create_footprint :: "env \<Rightarrow> 'a COG_attrs_scheme \<Rightarrow> polygon io" where
  "create_footprint E self =
     bind_io (bbox_4326_at E self 0) (\<lambda>a0.
     bind_io (bbox_4326_at E self 1) (\<lambda>a1.
     bind_io (bbox_4326_at E self 0) (\<lambda>b0.
     bind_io (bbox_4326_at E self 3) (\<lambda>b3.
     bind_io (bbox_4326_at E self 2) (\<lambda>c2.
     bind_io (bbox_4326_at E self 3) (\<lambda>c3.
     bind_io (bbox_4326_at E self 2) (\<lambda>d2.
     bind_io (bbox_4326_at E self 1) (\<lambda>d1.
     return_io (Polygon [[a0, a1], [b0, b3], [c2, c3], [d2, d1]])))))))))"

text \<open>
  \<^verbatim>\<open>COG.__init__\<close> (lines 18-43). The argument \<open>temporal_in\<close> is never read: line 39
  assigns the clock's reading.
\<close>

definition COG_init ::
  "env \<Rightarrow> string \<Rightarrow> coord list \<Rightarrow> temporal_arg \<Rightarrow> coord \<times> coord \<Rightarrow> string \<Rightarrow> string \<Rightarrow> COG io"
where
  "COG_init E uri_in bbox_in temporal_in resolution_in projection_in cmap_in =
     bind_io (datetime_now E) (\<lambda>now.
     let self = \<lparr>uri = uri_in, bbox = bbox_in, temporal = now,
                 resolution = resolution_in, projection = projection_in\<rparr> in
     bind_io (create_footprint E self) (\<lambda>p.
     return_io \<lparr>uri = uri_in, bbox = bbox_in, temporal = now,
                resolution = resolution_in, projection = projection_in,
                footprint_4326 = shapely_mapping E p, cmap = cmap_in\<rparr>))"

text \<open>
  \<^verbatim>\<open>COG.from_s3\<close> (lines 72-96). \<open>from_s3_body\<close> is the body of the \<^verbatim>\<open>try\<close>.
  The local \<^verbatim>\<open>temporal\<close> of lines 81-84 is computed and not used: line 89 passes a fresh
  clock reading to the constructor.
\<close>

definition apostrophe :: string where
  "apostrophe = [CHR 0x27]"

definition crs_to_string :: "string option \<Rightarrow> exn + string" where
  "crs_to_string crs =
     (case crs of
        None \<Rightarrow> Inl (PyException ''AttributeError''
                  (apostrophe @ ''NoneType'' @ apostrophe @ '' object has no attribute ''
                   @ apostrophe @ ''to_string'' @ apostrophe))
      | Some s \<Rightarrow> Inr s)"

definition from_s3_body :: "env \<Rightarrow> string \<Rightarrow> string \<Rightarrow> string \<Rightarrow> COG io" where
  "from_s3_body E bucket_name file_key cmap_in =
     (let s3_path = ''/vsis3/'' @ bucket_name @ ''/'' @ file_key in
      bind_io (lift_io (rasterio_open E s3_path)) (\<lambda>dataset.
      case ds_bounds dataset of (b_left, b_bottom, b_right, b_top) \<Rightarrow>
      bind_io (lift_io (crs_to_string (ds_crs dataset))) (\<lambda>projection_s.
      bind_io
        (if ds_tags dataset ''TIFFTAG_DATETIME'' = []
         then bind_io (lift_io (get_object_datetime E bucket_name file_key))
                (\<lambda>d. return_io (TemporalDatetime d))
         else return_io (TemporalTags (ds_tags dataset ''TIFFTAG_DATETIME'')))
        (\<lambda>temporal_unused.
      bind_io (datetime_now E) (\<lambda>now.
      COG_init E (''s3://'' @ bucket_name @ ''/'' @ file_key)
        [b_left, b_bottom, b_right, b_top] (TemporalDatetime now) (ds_res dataset)
        projection_s cmap_in)))))"

definition from_s3 :: "env \<Rightarrow> string \<Rightarrow> string \<Rightarrow> string \<Rightarrow> COG option io" where
  "from_s3 E bucket_name file_key cmap_in =
     try_except
       (bind_io (from_s3_body E bucket_name file_key cmap_in) (\<lambda>c. return_io (Some c)))
       (\<lambda>e. bind_io (print (''An error occurred: '' @ exn_msg e)) (\<lambda>u. return_io None))"

text \<open>
  The property \<^verbatim>\<open>all_cells_dry\<close> (lines 98-113). \<open>np_eq\<close> is one cell of numpy's
  \<^verbatim>\<open>raster_data == nodata\<close>: NaN equals nothing, and neither does the \<^verbatim>\<open>None\<close> that
  rasterio reports when the band declares no nodata value. \<^verbatim>\<open>.all()\<close> is true of an
  empty array.
\<close>

fun np_eq :: "number \<Rightarrow> number option \<Rightarrow> bool" where
  "np_eq p None = False"
| "np_eq p (Some n) = (p \<noteq> NaN \<and> n \<noteq> NaN \<and> p = n)"

definition np_all :: "bool list list \<Rightarrow> bool" where
  "np_all a = list_all (list_all (\<lambda>b. b)) a"

text \<open>\<^verbatim>\<open>dataset.read(i)\<close>: band indexes start at 1.\<close>

definition dataset_read_band :: "dataset \<Rightarrow> nat \<Rightarrow> exn + band" where
  "dataset_read_band ds i =
     (case ds_read ds of
        Inl e \<Rightarrow> Inl e
      | Inr bands \<Rightarrow>
          if 1 \<le> i \<and> i \<le> length bands then Inr (bands ! (i - 1))
          else Inl (PyException ''IndexError'' ''band index out of range''))"

definition all_cells_dry_body :: "env \<Rightarrow> string \<Rightarrow> string \<Rightarrow> bool option io" where
  "all_cells_dry_body E bucket key =
     (let s3_path = ''/vsis3/'' @ bucket @ ''/'' @ key in
      bind_io (lift_io (rasterio_open E s3_path)) (\<lambda>dataset.
      bind_io (lift_io (dataset_read_band dataset 1)) (\<lambda>raster_data.
      bind_io (lift_io (py_index (ds_nodatavals dataset) 0)) (\<lambda>nodata.
      return_io (Some (np_all (map (map (\<lambda>p. np_eq p nodata)) raster_data)))))))"

definition all_cells_dry :: "env \<Rightarrow> 'a COG_attrs_scheme \<Rightarrow> bool option io" where
  "all_cells_dry E self =
     bind_io (lift_io (split_s3_path E (uri self))) (\<lambda>(bucket, key).
     try_except (all_cells_dry_body E bucket key)
       (\<lambda>e. bind_io (print (''An error occurred: '' @ exn_msg e)) (\<lambda>u. return_io None)))"

text \<open>
  \<^verbatim>\<open>str.replace(old, new)\<close>: every occurrence, leftmost first, without overlap.
\<close>

fun str_replace :: "string \<Rightarrow> string \<Rightarrow> string \<Rightarrow> string" where
  "str_replace old new [] = (if old = [] then new else [])"
| "str_replace old new (c # cs) =
     (if old = [] then new @ c # str_replace old new cs
      else if take (length old) (c # cs) = old
        then new @ str_replace old new (drop (length old) (c # cs))
      else c # str_replace old new cs)"

text \<open>\<^verbatim>\<open>a // b\<close> and \<^verbatim>\<open>a / b\<close> on Python integers.\<close>

definition floordiv :: "int \<Rightarrow> int \<Rightarrow> exn + int" where
  "floordiv a b =
     (if b = 0 then Inl (PyException ''ZeroDivisionError'' ''integer division or modulo by zero'')
      else Inr (a div b))"

definition truediv :: "int \<Rightarrow> int \<Rightarrow> exn + real" where
  "truediv a b =
     (if b = 0 then Inl (PyException ''ZeroDivisionError'' ''division by zero'')
      else Inr (real_of_int a / real_of_int b))"

text \<open>
  \<^verbatim>\<open>np.empty((count, height, width), dtype)\<close>: an array of that shape whose cells hold
  whatever was in memory.
\<close>

definition np_empty :: "env \<Rightarrow> nat \<Rightarrow> int \<Rightarrow> int \<Rightarrow> string \<Rightarrow> exn + band list" where
  "np_empty E n h w dtype =
     (if h < 0 \<or> w < 0 then Inl (PyException ''ValueError'' ''negative dimensions are not allowed'')
      else Inr (replicate n (replicate (nat h) (replicate (nat w) (np_uninitialised E)))))"

text \<open>
  \<^verbatim>\<open>np.squeeze(a, axis=0)\<close>: drops the first axis when its length is one, raises
  otherwise.
\<close>

definition np_squeeze0 :: "band list \<Rightarrow> exn + band" where
  "np_squeeze0 a =
     (case a of
        [b] \<Rightarrow> Inr b
      | _ \<Rightarrow> Inl (PyException ''ValueError''
                ''cannot select an axis to squeeze out which has size not equal to one''))"

text \<open>
  The loop of lines 134-143 over \<^verbatim>\<open>range(1, dataset.count + 1)\<close>: each call of
  \<^verbatim>\<open>reproject\<close> fills \<^verbatim>\<open>resampled[i - 1]\<close> in place.
\<close>

fun reproject_bands ::
  "env \<Rightarrow> dataset \<Rightarrow> band list \<Rightarrow> affine \<Rightarrow> nat list \<Rightarrow> band list \<Rightarrow> exn + band list"
where
  "reproject_bands E ds data transform [] resampled = Inr resampled"
| "reproject_bands E ds data transform (i # rest) resampled =
     (case py_index data (i - 1) of
        Inl e \<Rightarrow> Inl e
      | Inr src \<Rightarrow>
         (case py_index resampled (i - 1) of
            Inl e \<Rightarrow> Inl e
          | Inr dst \<Rightarrow>
             (case reproject E src dst (ds_transform ds) (ds_crs ds) transform (ds_crs ds)
                     Resampling_average of
                Inl e \<Rightarrow> Inl e
              | Inr dst' \<Rightarrow>
                  reproject_bands E ds data transform rest (resampled[i - 1 := dst']))))"

text \<open>\<^verbatim>\<open>plt.imsave(path, image, cmap=...)\<close>: writes the file, or raises.\<close>

definition imsave_io :: "env \<Rightarrow> string \<Rightarrow> band \<Rightarrow> string \<Rightarrow> unit io" where
  "imsave_io E path img cmap_name w =
     (case imsave E path img cmap_name of
        Inl e \<Rightarrow> (Inl e, w)
      | Inr bytes \<Rightarrow> (Inr (), w\<lparr>files := (files w)(path \<mapsto> bytes)\<rparr>))"

text \<open>\<^verbatim>\<open>COG.create_thumbnail\<close> (lines 115-151); the body of the \<^verbatim>\<open>try\<close> first.\<close>

definition create_thumbnail_body :: "env \<Rightarrow> COG \<Rightarrow> string \<Rightarrow> int \<Rightarrow> unit io" where
  "create_thumbnail_body E self thumbnail_path factor =
     bind_io (lift_io (rasterio_open E (str_replace ''s3://'' ''/vsis3/'' (uri self)))) (\<lambda>dataset.
     bind_io (lift_io (ds_read dataset)) (\<lambda>data.
     bind_io (lift_io (floordiv (ds_width dataset) factor)) (\<lambda>new_width.
     bind_io (lift_io (floordiv (ds_height dataset) factor)) (\<lambda>new_height.
     bind_io (lift_io (truediv (ds_width dataset) new_width)) (\<lambda>sx.
     bind_io (lift_io (truediv (ds_height dataset) new_height)) (\<lambda>sy.
     let transform = affine_mul E (ds_transform dataset)
                       (affine_scale E (ds_transform dataset) sx sy) in
     bind_io (lift_io (np_empty E (ds_count dataset) new_height new_width (ds_dtype dataset)))
       (\<lambda>resampled0.
     bind_io (lift_io (reproject_bands E dataset data transform
                         [1 ..< ds_count dataset + 1] resampled0)) (\<lambda>resampled.
     bind_io (lift_io (np_squeeze0 resampled)) (\<lambda>img.
     imsave_io E thumbnail_path img (cmap self))))))))))"

definition create_thumbnail :: "env \<Rightarrow> COG \<Rightarrow> string \<Rightarrow> int \<Rightarrow> unit io" where
  "create_thumbnail E self thumbnail_path factor =
     try_except (create_thumbnail_body E self thumbnail_path factor)
       (\<lambda>e. print (''An error occurred: '' @ exn_msg e))"

section \<open>The class FRDCog\<close>

text \<open>
  \<^verbatim>\<open>FRDCog.__init__\<close> only calls the constructor of \<^verbatim>\<open>COG\<close>; an \<^verbatim>\<open>FRDCog\<close> has the
  attributes of a \<^verbatim>\<open>COG\<close>.
\<close>

definition FRDCog_init ::
  "env \<Rightarrow> string \<Rightarrow> coord list \<Rightarrow> temporal_arg \<Rightarrow> coord \<times> coord \<Rightarrow> string \<Rightarrow> string \<Rightarrow> COG io"
where
  "FRDCog_init E uri_in bbox_in temporal_in resolution_in projection_in cmap_in =
     COG_init E uri_in bbox_in temporal_in resolution_in projection_in cmap_in"

datatype media_type = GEOTIFF | PNG

record asset =
  href :: string
  media_type :: media_type
  roles :: "string list"

datatype prop_value =
  PropStr string
  | PropFloats "coord list"
  | PropDict "(string \<times> string) list"

record item =
  item_id :: string
  geometry :: geojson
  item_bbox :: "coord list"
  item_datetime :: datetime
  stac_extensions :: "string list"
  properties :: "(string \<times> prop_value) list"
  assets :: "(string \<times> asset) list"

text \<open>
  A Python dictionary keeps insertion order; assigning to a key that is present replaces its
  value in place. A dictionary display assigns its entries from left to right.
\<close>

fun dict_set :: "('k \<times> 'v) list \<Rightarrow> 'k \<Rightarrow> 'v \<Rightarrow> ('k \<times> 'v) list" where
  "dict_set [] k v = [(k, v)]"
| "dict_set ((k', v') # d) k v =
     (if k' = k then (k', v) # d else (k', v') # dict_set d k v)"

definition dict_display :: "('k \<times> 'v) list \<Rightarrow> ('k \<times> 'v) list" where
  "dict_display kvs = foldl (\<lambda>d (k, v). dict_set d k v) [] kvs"

definition add_asset :: "item \<Rightarrow> string \<Rightarrow> asset \<Rightarrow> item" where
  "add_asset it key a = it\<lparr>assets := dict_set (assets it) key a\<rparr>"

text \<open>
  \<^verbatim>\<open>FRDCog.to_pystac_item\<close> (lines 170-216). The arguments of \<^verbatim>\<open>pystac.Item\<close> are
  evaluated from left to right: the cached footprint, the property \<^verbatim>\<open>bbox_4326\<close>, the
  attribute \<^verbatim>\<open>temporal\<close>, then the properties with two readings of the clock.
  \<^verbatim>\<open>create_thumbnail\<close> is called with its default factor 4.
\<close>

definition to_pystac_item :: "env \<Rightarrow> COG \<Rightarrow> string \<Rightarrow> string \<Rightarrow> bool \<Rightarrow> item io" where
  "to_pystac_item E self new_id thumbnail_path new_thumbnail =
     (let geometry_arg = footprint_4326 self in
      bind_io (bbox_4326 E self) (\<lambda>bbox_arg.
      let datetime_arg = temporal self in
      bind_io (datetime_now E) (\<lambda>created.
      bind_io (datetime_now E) (\<lambda>updated.
      let it0 = \<lparr>item_id = new_id,
                 geometry = geometry_arg,
                 item_bbox = bbox_arg,
                 item_datetime = datetime_arg,
                 stac_extensions =
                   [''https://stac-extensions.github.io/projection/v1.0.0/schema.json'',
                    ''https://stac-extensions.github.io/storage/v1.0.0/schema.json'',
                    ''https://stac-extensions.github.io/processing/v1.1.0/schema.json''],
                 properties = dict_display
                   [(''frd:proj'', PropStr ''kanawha''),
                    (''frd:project_status'', PropStr ''FFRD pilot''),
                    (''frd:project_status'', PropStr ''FFRD pilot''),
                    (''proj:bbox'', PropFloats (bbox self)),
                    (''proj:wkt2'', PropStr (projection self)),
                    (''processing:software'', PropDict [(''frd-to-stac'', ''2023.11.04'')]),
                    (''created'', PropStr (datetime_to_str E created)),
                    (''updated'', PropStr (datetime_to_str E updated))],
                 assets = []\<rparr>;
          it1 = add_asset it0 ''cog''
                  \<lparr>href = ''grid.tif'', media_type = GEOTIFF, roles = [''data'']\<rparr>
      in
      if new_thumbnail then
        bind_io (create_thumbnail E self thumbnail_path 4) (\<lambda>u.
        return_io (add_asset it1 ''thumbnail''
                     \<lparr>href = ''thumbnail.png'', media_type = PNG, roles = [''thumbnail'']\<rparr>))
      else return_io it1))))"

section \<open>A concrete world\<close>

text \<open>
  One bucket \<^verbatim>\<open>frd\<close> with three rasters: \<^verbatim>\<open>grid.tif\<close>, a single band of 4 rows and
  8 columns in which every cell is the nodata value \<open>-9999\<close>, without a timestamp tag, last
  modified at time 500; \<^verbatim>\<open>rgb.tif\<close>, the same grid with two bands, one wet cell in the
  first; \<^verbatim>\<open>broken.tif\<close>, which opens but whose pixels cannot be read; and
  \<^verbatim>\<open>nan.tif\<close>, a float grid whose declared nodata value is NaN and whose every cell is
  NaN. Any other path fails to open. The clock reads 1000, 1001, 1002, ...
\<close>

definition dry_band :: band where
  "dry_band = replicate 4 (replicate 8 (Finite (- 9999)))"

definition wet_band :: band where
  "wet_band = replicate 3 (replicate 8 (Finite (- 9999))) @ [Finite 2 # replicate 7 (Finite (- 9999))]"

definition grid_tif :: dataset where
  "grid_tif =
     \<lparr>ds_bounds = (0, 0, 10, 20),
      ds_crs = Some ''EPSG:26917'',
      ds_tags = (\<lambda>ns. []),
      ds_res = (1, 1),
      ds_width = 8,
      ds_height = 4,
      ds_count = 1,
      ds_dtype = ''float32'',
      ds_transform = Affine 1 0 0 0 (- 1) 20,
      ds_nodatavals = [Some (Finite (- 9999))],
      ds_read = Inr [dry_band]\<rparr>"

definition rgb_tif :: dataset where
  "rgb_tif = grid_tif\<lparr>ds_count := 2,
                       ds_nodatavals := [Some (Finite (- 9999)), Some (Finite (- 9999))],
                       ds_read := Inr [wet_band, dry_band]\<rparr>"

definition broken_tif :: dataset where
  "broken_tif = grid_tif\<lparr>ds_read := Inl (PyException ''RasterioIOError'' ''Read failed'')\<rparr>"

definition nan_tif :: dataset where
  "nan_tif = grid_tif\<lparr>ds_nodatavals := [Some NaN],
                       ds_read := Inr [replicate 4 (replicate 8 NaN)]\<rparr>"

definition example_env :: env where
  "example_env =
     \<lparr>clock = (\<lambda>n. Datetime (1000 + int n)),
      rasterio_open = (\<lambda>path.
        if path = ''/vsis3/frd/grid.tif'' then Inr grid_tif
        else if path = ''/vsis3/frd/rgb.tif'' then Inr rgb_tif
        else if path = ''/vsis3/frd/broken.tif'' then Inr broken_tif
        else if path = ''/vsis3/frd/nan.tif'' then Inr nan_tif
        else Inl (PyException ''RasterioIOError'' ''No such file or directory'')),
      from_crs = (\<lambda>src dst always_xy.
        if src = ''EPSG:26917'' \<and> dst = ''epsg:4326'' \<and> always_xy
        then Inr (\<lambda>x y. (x - 81, y + 38))
        else Inl (PyException ''CRSError'' ''Invalid projection'')),
      shapely_mapping = (\<lambda>p. GeoJSON ''Polygon''
        [map (\<lambda>v. (v ! 0, v ! 1)) (shell p @ take 1 (shell p))]),
      get_object_datetime = (\<lambda>bucket key. Inr (Datetime 500)),
      split_s3_path = (\<lambda>u. Inr (takeWhile (\<lambda>c. c \<noteq> CHR ''/'') (drop 5 u),
                                 drop 1 (dropWhile (\<lambda>c. c \<noteq> CHR ''/'') (drop 5 u)))),
      affine_scale = (\<lambda>a sx sy. Affine sx 0 0 0 sy 0),
      affine_mul = (\<lambda>a b. case (a, b) of
        (Affine a1 b1 c1 d1 e1 f1, Affine a2 b2 c2 d2 e2 f2) \<Rightarrow>
          Affine (a1 * a2 + b1 * d2) (a1 * b2 + b1 * e2) (a1 * c2 + b1 * f2 + c1)
                 (d1 * a2 + e1 * d2) (d1 * b2 + e1 * e2) (d1 * c2 + e1 * f2 + f1)),
      np_uninitialised = Finite 0,
      reproject = (\<lambda>src dst src_transform src_crs dst_transform dst_crs r.
        Inr (map (map (\<lambda>c. Finite (- 9999))) dst)),
      imsave = (\<lambda>path img cmap_name.
        if cmap_name = ''Blues'' then Inr [137, 80, 78, 71]
        else Inl (PyException ''ValueError'' ''not a valid colormap name'')),
      datetime_to_str = (\<lambda>d. ''2023-11-04T00:00:00Z'')\<rparr>"

definition world0 :: world where
  "world0 = \<lparr>ticks = 0, stdout = [], files = Map.empty\<rparr>"

text \<open>The descriptor that the constructor builds for \<^verbatim>\<open>grid.tif\<close> at clock reading 0.\<close>

definition grid_cog :: COG where
  "grid_cog =
     \<lparr>uri = ''s3://frd/grid.tif'', bbox = [0, 0, 10, 20], temporal = Datetime 1000,
      resolution = (1, 1), projection = ''EPSG:26917'',
      footprint_4326 = GeoJSON ''Polygon''
        [[(- 81, 38), (- 81, 58), (- 71, 58), (- 71, 38), (- 81, 38)]],
      cmap = ''Blues''\<rparr>"

text \<open>Descriptors with the same attributes and another URI.\<close>

definition rgb_cog :: COG where
  "rgb_cog = grid_cog\<lparr>uri := ''s3://frd/rgb.tif''\<rparr>"

definition broken_cog :: COG where
  "broken_cog = grid_cog\<lparr>uri := ''s3://frd/broken.tif''\<rparr>"

definition nan_cog :: COG where
  "nan_cog = grid_cog\<lparr>uri := ''s3://frd/nan.tif''\<rparr>"

definition missing_cog :: COG where
  "missing_cog = grid_cog\<lparr>uri := ''s3://frd/missing.tif''\<rparr>"

section \<open>Sequencing\<close>

lemma bind_io_lift:
  "bind_io (lift_io r) f w = (case r of Inl e \<Rightarrow> (Inl e, w) | Inr x \<Rightarrow> f x w)"
  by (simp add: bind_io_def lift_io_def split: sum.splits)

lemma bind_io_Inr: "m w = (Inr x, w') \<Longrightarrow> bind_io m f w = f x w'"
  by (simp add: bind_io_def)

lemma bind_io_Inl: "m w = (Inl e, w') \<Longrightarrow> bind_io m f w = (Inl e, w')"
  by (simp add: bind_io_def)

section \<open>The geographic bounding box and the footprint\<close>

lemma bbox_4326_world: "snd (bbox_4326 E self w) = w"
  by (simp add: bbox_4326_def bind_io_lift return_io_def Let_def split: sum.splits)

lemma bbox_4326_any_world: "fst (bbox_4326 E self w') = fst (bbox_4326 E self w)"
  by (simp add: bbox_4326_def bind_io_lift return_io_def Let_def split: sum.splits)

lemma bbox_4326_length: "bbox_4326 E self w = (Inr b, w') \<Longrightarrow> length b = 4"
  by (auto simp add: bbox_4326_def bind_io_lift return_io_def Let_def split: sum.splits)

lemma bbox_4326_value:
  assumes "bbox self = [minx, miny, maxx, maxy]"
    and "from_crs E (projection self) ''epsg:4326'' True = Inr tr"
  shows "bbox_4326 E self w =
           (Inr [fst (tr minx miny), snd (tr minx miny), fst (tr maxx maxy), snd (tr maxx maxy)], w)"
  using assms
  by (simp add: bbox_4326_def bind_io_lift return_io_def Let_def py_index_def)

lemma bbox_4326_at_value:
  "bbox_4326 E self w = (Inr b, w) \<Longrightarrow> i < length b \<Longrightarrow>
   bbox_4326_at E self i w = (Inr (b ! i), w)"
  by (simp add: bbox_4326_at_def bind_io_def lift_io_def py_index_def)

lemma bbox_4326_at_fail:
  "bbox_4326 E self w = (Inl e, w') \<Longrightarrow> bbox_4326_at E self i w = (Inl e, w')"
  by (simp add: bbox_4326_at_def bind_io_def)

lemma create_footprint_value:
  assumes "bbox_4326 E self w = (Inr [x0, y0, x1, y1], w)"
  shows "create_footprint E self w = (Inr (Polygon [[x0, y0], [x0, y1], [x1, y1], [x1, y0]]), w)"
proof -
  have at: "bbox_4326_at E self i w = (Inr ([x0, y0, x1, y1] ! i), w)" if "i < 4" for i
    using bbox_4326_at_value [OF assms, of i] that by simp
  show ?thesis
    unfolding create_footprint_def
    by (simp add: bind_io_def at return_io_def)
qed

lemma create_footprint_fail:
  assumes "bbox_4326 E self w = (Inl e, w')"
  shows "create_footprint E self w = (Inl e, w')"
  unfolding create_footprint_def
  by (simp add: bind_io_def bbox_4326_at_fail [OF assms])

section \<open>The constructor\<close>

lemma bbox_4326_cong:
  "bbox self = bbox self' \<Longrightarrow> projection self = projection self' \<Longrightarrow>
   bbox_4326 E self w = bbox_4326 E self' w"
  by (simp add: bbox_4326_def)

lemma list4: "length b = 4 \<Longrightarrow> \<exists>x0 y0 x1 y1. b = [x0, y0, x1, y1]"
  by (auto simp add: numeral_eq_Suc length_Suc_conv)

lemma COG_init_Inr:
  assumes "COG_init E u b t r p c w = (Inr self, w')"
  shows "w' = w\<lparr>ticks := Suc (ticks w)\<rparr> \<and>
         (\<exists>x0 y0 x1 y1.
            bbox_4326 E self w' = (Inr [x0, y0, x1, y1], w') \<and>
            self = \<lparr>uri = u, bbox = b, temporal = clock E (ticks w), resolution = r,
                    projection = p,
                    footprint_4326 =
                      shapely_mapping E (Polygon [[x0, y0], [x0, y1], [x1, y1], [x1, y0]]),
                    cmap = c\<rparr>)"
proof -
  define w1 where "w1 = w\<lparr>ticks := Suc (ticks w)\<rparr>"
  define self0 where
    "self0 = \<lparr>uri = u, bbox = b, temporal = clock E (ticks w), resolution = r, projection = p\<rparr>"
  have init: "COG_init E u b t r p c w =
      bind_io (create_footprint E self0) (\<lambda>pg.
        return_io \<lparr>uri = u, bbox = b, temporal = clock E (ticks w), resolution = r,
                   projection = p, footprint_4326 = shapely_mapping E pg, cmap = c\<rparr>) w1"
    by (simp add: COG_init_def bind_io_def datetime_now_def Let_def w1_def self0_def)
  obtain res where res: "bbox_4326 E self0 w1 = (res, w1)"
    using bbox_4326_world [of E self0 w1] by (metis prod.collapse)
  show ?thesis
  proof (cases res)
    case (Inl e)
    then have "create_footprint E self0 w1 = (Inl e, w1)"
      using res create_footprint_fail by blast
    then show ?thesis using assms init by (simp add: bind_io_def)
  next
    case (Inr bb)
    then have "length bb = 4" using res bbox_4326_length by blast
    then obtain x0 y0 x1 y1 where bb: "bb = [x0, y0, x1, y1]" using list4 by blast
    have b0: "bbox_4326 E self0 w1 = (Inr [x0, y0, x1, y1], w1)"
      using res Inr bb by simp
    have fp: "create_footprint E self0 w1
                = (Inr (Polygon [[x0, y0], [x0, y1], [x1, y1], [x1, y0]]), w1)"
      by (rule create_footprint_value [OF b0])
    have self: "self = \<lparr>uri = u, bbox = b, temporal = clock E (ticks w), resolution = r,
                    projection = p,
                    footprint_4326 =
                      shapely_mapping E (Polygon [[x0, y0], [x0, y1], [x1, y1], [x1, y0]]),
                    cmap = c\<rparr>" and w': "w' = w1"
      using assms init fp by (simp_all add: bind_io_def return_io_def)
    have "bbox_4326 E self w1 = bbox_4326 E self0 w1"
      by (rule bbox_4326_cong) (simp_all add: self self0_def)
    with b0 have b1: "bbox_4326 E self w' = (Inr [x0, y0, x1, y1], w')"
      using w' by simp
    have "w' = w\<lparr>ticks := Suc (ticks w)\<rparr>"
      using w' by (simp add: w1_def)
    moreover have "\<exists>x0 y0 x1 y1.
            bbox_4326 E self w' = (Inr [x0, y0, x1, y1], w') \<and>
            self = \<lparr>uri = u, bbox = b, temporal = clock E (ticks w), resolution = r,
                    projection = p,
                    footprint_4326 =
                      shapely_mapping E (Polygon [[x0, y0], [x0, y1], [x1, y1], [x1, y0]]),
                    cmap = c\<rparr>"
      using b1 self by blast
    ultimately show ?thesis by (rule conjI)
  qed
qed

subsection \<open>The concrete world, evaluated\<close>

lemma example_from_crs:
  "from_crs example_env ''EPSG:26917'' ''epsg:4326'' True = Inr (\<lambda>x y. (x - 81, y + 38))"
  by (simp add: example_env_def)

lemma example_bbox_4326:
  "bbox self = [0, 0, 10, 20] \<Longrightarrow> projection self = ''EPSG:26917'' \<Longrightarrow>
   bbox_4326 example_env self w = (Inr [- 81, 38, - 71, 58], w)"
  using bbox_4326_value [of self 0 0 10 20 example_env "\<lambda>x y. (x - 81, y + 38)" w]
  by (simp add: example_from_crs)


lemma example_bbox_grid_cog:
  "bbox_4326 example_env grid_cog w = (Inr [- 81, 38, - 71, 58], w)"
  by (rule example_bbox_4326) (simp_all add: grid_cog_def)

lemma example_COG_init:
  "COG_init example_env ''s3://frd/grid.tif'' [0, 0, 10, 20] t (1, 1) ''EPSG:26917'' ''Blues'' world0
     = (Inr grid_cog, world0\<lparr>ticks := 1\<rparr>)"
proof -
  have fp: "create_footprint example_env
        \<lparr>uri = ''s3://frd/grid.tif'', bbox = [0, 0, 10, 20], temporal = Datetime 1000,
         resolution = (1, 1), projection = ''EPSG:26917''\<rparr> (world0\<lparr>ticks := 1\<rparr>)
      = (Inr (Polygon [[- 81, 38], [- 81, 58], [- 71, 58], [- 71, 38]]), world0\<lparr>ticks := 1\<rparr>)"
    by (rule create_footprint_value) (simp add: example_bbox_4326)
  have sm: "shapely_mapping example_env (Polygon [[- 81, 38], [- 81, 58], [- 71, 58], [- 71, 38]])
      = GeoJSON ''Polygon'' [[(- 81, 38), (- 81, 58), (- 71, 58), (- 71, 38), (- 81, 38)]]"
    by (simp add: example_env_def)
  have ck: "clock example_env 0 = Datetime 1000" by (simp add: example_env_def)
  show ?thesis
    by (simp add: COG_init_def bind_io_def datetime_now_def Let_def world0_def ck
        fp [unfolded world0_def, simplified] sm return_io_def grid_cog_def)
qed

section \<open>Claims\<close>

text \<open>
  C1. Whatever the caller passes as \<^verbatim>\<open>temporal\<close>, the constructor does the same thing,
  and the descriptor it builds carries the clock reading taken at construction (line 39).
\<close>

theorem COG_init_temporal_is_now:
  "COG_init E u b t r p c w = COG_init E u b t' r p c w \<and>
   (\<forall>self w'. COG_init E u b t r p c w = (Inr self, w') \<longrightarrow>
      temporal self = clock E (ticks w))"
proof
  show "COG_init E u b t r p c w = COG_init E u b t' r p c w"
    by (simp add: COG_init_def)
next
  show "\<forall>self w'. COG_init E u b t r p c w = (Inr self, w') \<longrightarrow>
      temporal self = clock E (ticks w)"
  proof (intro allI impI)
    fix self w'
    assume "COG_init E u b t r p c w = (Inr self, w')"
    from COG_init_Inr [OF this] obtain x0 y0 x1 y1 where
      "self = \<lparr>uri = u, bbox = b, temporal = clock E (ticks w), resolution = r,
                    projection = p,
                    footprint_4326 =
                      shapely_mapping E (Polygon [[x0, y0], [x0, y1], [x1, y1], [x1, y0]]),
                    cmap = c\<rparr>" by blast
    then show "temporal self = clock E (ticks w)" by simp
  qed
qed

theorem COG_init_temporal_is_now_witness:
  "COG_init example_env ''s3://frd/grid.tif'' [0, 0, 10, 20] (TemporalDatetime (Datetime 7)) (1, 1)
      ''EPSG:26917'' ''Blues'' world0 = (Inr grid_cog, world0\<lparr>ticks := 1\<rparr>)
   \<and> temporal grid_cog = clock example_env (ticks world0)"
  using COG_init_temporal_is_now [of example_env "''s3://frd/grid.tif''" "[0, 0, 10, 20]"
      "TemporalDatetime (Datetime 7)" "(1, 1)" "''EPSG:26917''" "''Blues''" world0 TemporalNone]
    example_COG_init [of "TemporalDatetime (Datetime 7)"]
  by simp

text \<open>
  C2. For a descriptor whose native bounding box is \<open>[minx, miny, maxx, maxy]\<close> and whose
  projection pyproj accepts, \<^verbatim>\<open>bbox_4326\<close> returns four values: the always-xy transform
  of the corner \<open>(minx, miny)\<close> followed by the transform of the corner \<open>(maxx, maxy)\<close>.
\<close>

theorem bbox_4326_transforms_corners:
  assumes "bbox self = [minx, miny, maxx, maxy]"
    and "from_crs E (projection self) ''epsg:4326'' True = Inr tr"
  shows "\<exists>b. bbox_4326 E self w = (Inr b, w) \<and> length b = 4 \<and>
             b = (case tr minx miny of (x, y) \<Rightarrow> [x, y]) @ (case tr maxx maxy of (x, y) \<Rightarrow> [x, y])"
  using bbox_4326_value [OF assms, of w]
  by (simp add: case_prod_beta)

theorem bbox_4326_transforms_corners_witness:
  "bbox grid_cog = [0, 0, 10, 20] \<and>
   from_crs example_env (projection grid_cog) ''epsg:4326'' True = Inr (\<lambda>x y. (x - 81, y + 38)) \<and>
   bbox_4326 example_env grid_cog world0 = (Inr [- 81, 38, - 71, 58], world0)"
proof -
  have b: "bbox grid_cog = [0, 0, 10, 20]" by (simp add: grid_cog_def)
  have t: "from_crs example_env (projection grid_cog) ''epsg:4326'' True
             = Inr (\<lambda>x y. (x - 81, y + 38))"
    by (simp add: grid_cog_def example_from_crs)
  show ?thesis
    using bbox_4326_transforms_corners [OF b t, of world0] b t by auto
qed

text \<open>
  C3. The footprint of every constructed descriptor is the mapping of a polygon with exactly
  four vertices, the corners of the geographic bounding box in the order
  \<open>(minx, miny)\<close>, \<open>(minx, maxy)\<close>, \<open>(maxx, maxy)\<close>, \<open>(maxx, miny)\<close>.
\<close>

theorem footprint_is_bbox_4326_rectangle:
  assumes "COG_init E u b t r p c w = (Inr self, w')"
  shows "\<exists>minx miny maxx maxy pg.
           bbox_4326 E self w' = (Inr [minx, miny, maxx, maxy], w') \<and>
           create_footprint E self w' = (Inr pg, w') \<and>
           footprint_4326 self = shapely_mapping E pg \<and>
           length (shell pg) = 4 \<and>
           shell pg = [[minx, miny], [minx, maxy], [maxx, maxy], [maxx, miny]]"
proof -
  from COG_init_Inr [OF assms] obtain x0 y0 x1 y1 where
    b: "bbox_4326 E self w' = (Inr [x0, y0, x1, y1], w')" and
    s: "self = \<lparr>uri = u, bbox = b, temporal = clock E (ticks w), resolution = r,
                    projection = p,
                    footprint_4326 =
                      shapely_mapping E (Polygon [[x0, y0], [x0, y1], [x1, y1], [x1, y0]]),
                    cmap = c\<rparr>" by blast
  have f: "create_footprint E self w' = (Inr (Polygon [[x0, y0], [x0, y1], [x1, y1], [x1, y0]]), w')"
    by (rule create_footprint_value [OF b])
  have fp: "footprint_4326 self = shapely_mapping E (Polygon [[x0, y0], [x0, y1], [x1, y1], [x1, y0]])"
    by (simp add: s)
  show ?thesis
    using b f fp by (intro exI [of _ x0] exI [of _ y0] exI [of _ x1] exI [of _ y1]
        exI [of _ "Polygon [[x0, y0], [x0, y1], [x1, y1], [x1, y0]]"]) simp
qed

theorem footprint_is_bbox_4326_rectangle_witness:
  "COG_init example_env ''s3://frd/grid.tif'' [0, 0, 10, 20] TemporalNone (1, 1)
      ''EPSG:26917'' ''Blues'' world0 = (Inr grid_cog, world0\<lparr>ticks := 1\<rparr>) \<and>
   create_footprint example_env grid_cog (world0\<lparr>ticks := 1\<rparr>)
     = (Inr (Polygon [[- 81, 38], [- 81, 58], [- 71, 58], [- 71, 38]]), world0\<lparr>ticks := 1\<rparr>)"
proof -
  have c: "COG_init example_env ''s3://frd/grid.tif'' [0, 0, 10, 20] TemporalNone (1, 1)
      ''EPSG:26917'' ''Blues'' world0 = (Inr grid_cog, world0\<lparr>ticks := 1\<rparr>)"
    by (rule example_COG_init)
  have b: "bbox_4326 example_env grid_cog (world0\<lparr>ticks := 1\<rparr>)
             = (Inr [- 81, 38, - 71, 58], world0\<lparr>ticks := 1\<rparr>)"
    by (rule example_bbox_4326) (simp_all add: grid_cog_def)
  from footprint_is_bbox_4326_rectangle [OF c] obtain minx miny maxx maxy pg where
    "bbox_4326 example_env grid_cog (world0\<lparr>ticks := 1\<rparr>)
       = (Inr [minx, miny, maxx, maxy], world0\<lparr>ticks := 1\<rparr>)"
    "create_footprint example_env grid_cog (world0\<lparr>ticks := 1\<rparr>) = (Inr pg, world0\<lparr>ticks := 1\<rparr>)"
    "shell pg = [[minx, miny], [minx, maxy], [maxx, maxy], [maxx, miny]]"
    by blast
  with b have "create_footprint example_env grid_cog (world0\<lparr>ticks := 1\<rparr>)
     = (Inr (Polygon [[- 81, 38], [- 81, 58], [- 71, 58], [- 71, 38]]), world0\<lparr>ticks := 1\<rparr>)"
    by (cases pg) simp
  with c show ?thesis by simp
qed

lemma bbox_4326_closed_form:
  "bbox_4326 E self w =
     (case from_crs E (projection self) ''epsg:4326'' True of
        Inl e \<Rightarrow> Inl e
      | Inr tr \<Rightarrow>
         (case bbox self of
            x0 # y0 # x1 # y1 # rest \<Rightarrow>
              Inr [fst (tr x0 y0), snd (tr x0 y0), fst (tr x1 y1), snd (tr x1 y1)]
          | _ \<Rightarrow> Inl (PyException ''IndexError'' ''list index out of range'')), w)"
  by (simp add: bbox_4326_def bind_io_lift py_index_def return_io_def Let_def
      split: sum.splits list.splits)

text \<open>
  C9. Reading \<^verbatim>\<open>bbox_4326\<close> is a step on the object and the world that changes neither:
  the object that comes out is the object that went in, so every attribute of the descriptor
  is what it was, and the clock, the console and the files are untouched. A second read, made
  on the state the first one left, returns what the first returned. The value is the one
  lines 51-57 compute: the exception of \<^verbatim>\<open>from_crs\<close> if it raises, an
  \<^verbatim>\<open>IndexError\<close> if \<^verbatim>\<open>_bbox\<close> has fewer than four entries, and otherwise the two
  transformed corners. pyproj's transformer is a function of its arguments.
\<close>

theorem bbox_4326_access_changes_nothing:
  "\<exists>r. bbox_4326_access E (self, w) = (r, (self, w)) \<and>
        bbox_4326_access E (snd (bbox_4326_access E (self, w))) = (r, (self, w)) \<and>
        r = (case from_crs E (projection self) ''epsg:4326'' True of
               Inl e \<Rightarrow> Inl e
             | Inr tr \<Rightarrow>
                (case bbox self of
                   x0 # y0 # x1 # y1 # rest \<Rightarrow>
                     Inr [fst (tr x0 y0), snd (tr x0 y0), fst (tr x1 y1), snd (tr x1 y1)]
                 | _ \<Rightarrow> Inl (PyException ''IndexError'' ''list index out of range'')))"
proof -
  define r where "r = (case from_crs E (projection self) ''epsg:4326'' True of
               Inl e \<Rightarrow> Inl e
             | Inr tr \<Rightarrow>
                (case bbox self of
                   x0 # y0 # x1 # y1 # rest \<Rightarrow>
                     Inr [fst (tr x0 y0), snd (tr x0 y0), fst (tr x1 y1), snd (tr x1 y1)]
                 | _ \<Rightarrow> Inl (PyException ''IndexError'' ''list index out of range'')))"
  have body: "bbox_4326 E self w = (r, w)"
    unfolding r_def by (rule bbox_4326_closed_form)
  have first: "bbox_4326_access E (self, w) = (r, (self, w))"
    by (simp add: bbox_4326_access_def body)
  then have second: "bbox_4326_access E (snd (bbox_4326_access E (self, w))) = (r, (self, w))"
    by simp
  from first second r_def show ?thesis by blast
qed

theorem bbox_4326_access_changes_nothing_witness:
  "bbox_4326_access example_env (grid_cog, world0) = (Inr [- 81, 38, - 71, 58], (grid_cog, world0)) \<and>
   bbox_4326_access example_env (snd (bbox_4326_access example_env (grid_cog, world0)))
     = (Inr [- 81, 38, - 71, 58], (grid_cog, world0))"
proof -
  from bbox_4326_access_changes_nothing [of example_env grid_cog world0]
  obtain r where a: "bbox_4326_access example_env (grid_cog, world0) = (r, (grid_cog, world0))"
    and b: "bbox_4326_access example_env (snd (bbox_4326_access example_env (grid_cog, world0)))
              = (r, (grid_cog, world0))"
    and r: "r = (case from_crs example_env (projection grid_cog) ''epsg:4326'' True of
               Inl e \<Rightarrow> Inl e
             | Inr tr \<Rightarrow>
                (case bbox grid_cog of
                   x0 # y0 # x1 # y1 # rest \<Rightarrow>
                     Inr [fst (tr x0 y0), snd (tr x0 y0), fst (tr x1 y1), snd (tr x1 y1)]
                 | _ \<Rightarrow> Inl (PyException ''IndexError'' ''list index out of range'')))"
    by blast
  have "r = Inr [- 81, 38, - 71, 58]"
    unfolding r by (simp add: grid_cog_def example_from_crs)
  with a b show ?thesis by simp
qed

section \<open>The catalog item\<close>

lemma create_thumbnail_returns: "fst (create_thumbnail E self path f w) = Inr ()"
  by (simp add: create_thumbnail_def try_except_def print_def split: prod.splits sum.splits)

lemma to_pystac_item_fail:
  assumes "bbox_4326 E self w = (Inl e, w1)"
  shows "to_pystac_item E self i path nt w = (Inl e, w1)"
  using assms by (simp add: to_pystac_item_def Let_def bind_io_def)

lemma to_pystac_item_value:
  assumes "bbox_4326 E self w = (Inr bb, w)"
  shows "\<exists>props.
    to_pystac_item E self i path nt w =
      (Inr \<lparr>item_id = i, geometry = footprint_4326 self, item_bbox = bb,
            item_datetime = temporal self,
            stac_extensions =
              [''https://stac-extensions.github.io/projection/v1.0.0/schema.json'',
               ''https://stac-extensions.github.io/storage/v1.0.0/schema.json'',
               ''https://stac-extensions.github.io/processing/v1.1.0/schema.json''],
            properties = props,
            assets =
              (if nt
               then [(''cog'', \<lparr>href = ''grid.tif'', media_type = GEOTIFF, roles = [''data'']\<rparr>),
                     (''thumbnail'',
                      \<lparr>href = ''thumbnail.png'', media_type = PNG, roles = [''thumbnail'']\<rparr>)]
               else [(''cog'', \<lparr>href = ''grid.tif'', media_type = GEOTIFF, roles = [''data'']\<rparr>)])\<rparr>,
       if nt then snd (create_thumbnail E self path 4 (w\<lparr>ticks := Suc (Suc (ticks w))\<rparr>))
       else w\<lparr>ticks := Suc (Suc (ticks w))\<rparr>)"
proof (cases nt)
  case True
  obtain w3 where ct: "create_thumbnail E self path 4 (w\<lparr>ticks := Suc (Suc (ticks w))\<rparr>) = (Inr (), w3)"
    using create_thumbnail_returns [of E self path 4 "w\<lparr>ticks := Suc (Suc (ticks w))\<rparr>"]
    by (metis prod.collapse)
  show ?thesis
    using assms True ct
    by (simp add: to_pystac_item_def Let_def bind_io_def datetime_now_def return_io_def
        add_asset_def)
next
  case False
  show ?thesis
    using assms False
    by (simp add: to_pystac_item_def Let_def bind_io_def datetime_now_def return_io_def
        add_asset_def)
qed

lemma bbox_4326_result: "\<exists>r. bbox_4326 E self w = (r, w)"
  using bbox_4326_world [of E self w] by (metis prod.collapse)

lemma example_open_grid:
  "rasterio_open example_env ''/vsis3/frd/grid.tif'' = Inr grid_tif"
  by (simp add: example_env_def)

lemma example_create_thumbnail:
  "create_thumbnail example_env grid_cog ''/tmp/thumbnail.png'' 4 w
     = (Inr (), w\<lparr>files := (files w)(''/tmp/thumbnail.png'' \<mapsto> [137, 80, 78, 71])\<rparr>)"
proof -
  have u: "uri grid_cog = ''s3://frd/grid.tif''" and c: "cmap grid_cog = ''Blues''"
    by (simp_all add: grid_cog_def)
  have rd: "ds_read grid_tif = Inr [dry_band]" "ds_width grid_tif = 8" "ds_height grid_tif = 4"
    "ds_count grid_tif = 1"
    by (simp_all add: grid_tif_def)
  have rp: "reproject example_env src dst a b c d r = Inr (map (map (\<lambda>c. Finite (- 9999))) dst)"
    for src dst a b c d r
    by (simp add: example_env_def)
  have im: "imsave example_env p img ''Blues'' = Inr [137, 80, 78, 71]" for p img
    by (simp add: example_env_def)
  have body: "create_thumbnail_body example_env grid_cog ''/tmp/thumbnail.png'' 4 w
     = (Inr (), w\<lparr>files := (files w)(''/tmp/thumbnail.png'' \<mapsto> [137, 80, 78, 71])\<rparr>)"
    unfolding create_thumbnail_body_def u c
    by (simp add: example_open_grid bind_io_lift rd floordiv_def truediv_def np_empty_def
        Let_def py_index_def rp np_squeeze0_def imsave_io_def im dry_band_def)
  show ?thesis
    by (simp add: create_thumbnail_def try_except_def body)
qed

text \<open>
  C4. An item that \<^verbatim>\<open>to_pystac_item\<close> returns has, without a new thumbnail, exactly the
  asset \<^verbatim>\<open>cog\<close> (href \<^verbatim>\<open>grid.tif\<close>, role \<^verbatim>\<open>data\<close>, whatever the descriptor's URI),
  and no thumbnail is rendered; with a new thumbnail it has exactly the assets \<^verbatim>\<open>cog\<close> and
  \<^verbatim>\<open>thumbnail\<close> (href \<^verbatim>\<open>thumbnail.png\<close>, role \<^verbatim>\<open>thumbnail\<close>), and
  \<^verbatim>\<open>create_thumbnail\<close> has run with the given path after the two clock readings. The call
  returns an item whenever \<^verbatim>\<open>bbox_4326\<close> does not raise.
\<close>

theorem to_pystac_item_assets:
  "(\<forall>it w'. to_pystac_item E self i path nt w = (Inr it, w') \<longrightarrow>
      (if nt
       then assets it =
              [(''cog'', \<lparr>href = ''grid.tif'', media_type = GEOTIFF, roles = [''data'']\<rparr>),
               (''thumbnail'',
                \<lparr>href = ''thumbnail.png'', media_type = PNG, roles = [''thumbnail'']\<rparr>)] \<and>
            w' = snd (create_thumbnail E self path 4 (w\<lparr>ticks := ticks w + 2\<rparr>))
       else assets it =
              [(''cog'', \<lparr>href = ''grid.tif'', media_type = GEOTIFF, roles = [''data'']\<rparr>)] \<and>
            w' = w\<lparr>ticks := ticks w + 2\<rparr>)) \<and>
   (\<forall>bb. bbox_4326 E self w = (Inr bb, w) \<longrightarrow>
      (\<exists>it w'. to_pystac_item E self i path nt w = (Inr it, w')))"
proof (intro conjI allI impI)
  fix it w'
  assume ret: "to_pystac_item E self i path nt w = (Inr it, w')"
  obtain r where r: "bbox_4326 E self w = (r, w)" using bbox_4326_result by blast
  show "if nt
       then assets it =
              [(''cog'', \<lparr>href = ''grid.tif'', media_type = GEOTIFF, roles = [''data'']\<rparr>),
               (''thumbnail'',
                \<lparr>href = ''thumbnail.png'', media_type = PNG, roles = [''thumbnail'']\<rparr>)] \<and>
            w' = snd (create_thumbnail E self path 4 (w\<lparr>ticks := ticks w + 2\<rparr>))
       else assets it =
              [(''cog'', \<lparr>href = ''grid.tif'', media_type = GEOTIFF, roles = [''data'']\<rparr>)] \<and>
            w' = w\<lparr>ticks := ticks w + 2\<rparr>"
  proof (cases r)
    case (Inl e)
    with r ret to_pystac_item_fail [of E self w e w i path nt] show ?thesis by simp
  next
    case (Inr bb)
    with r have "bbox_4326 E self w = (Inr bb, w)" by simp
    from to_pystac_item_value [OF this, of i path nt] ret show ?thesis
      by (cases nt) auto
  qed
next
  fix bb
  assume "bbox_4326 E self w = (Inr bb, w)"
  from to_pystac_item_value [OF this, of i path nt]
  show "\<exists>it w'. to_pystac_item E self i path nt w = (Inr it, w')" by blast
qed

theorem to_pystac_item_assets_witness:
  "map_sum id assets
     (fst (to_pystac_item example_env grid_cog ''kanawha-1'' ''/tmp/thumbnail.png'' True world0))
     = Inr [(''cog'', \<lparr>href = ''grid.tif'', media_type = GEOTIFF, roles = [''data'']\<rparr>),
            (''thumbnail'',
             \<lparr>href = ''thumbnail.png'', media_type = PNG, roles = [''thumbnail'']\<rparr>)] \<and>
   files (snd (to_pystac_item example_env grid_cog ''kanawha-1'' ''/tmp/thumbnail.png'' True world0))
     ''/tmp/thumbnail.png'' = Some [137, 80, 78, 71] \<and>
   map_sum id assets
     (fst (to_pystac_item example_env grid_cog ''kanawha-1'' ''/tmp/thumbnail.png'' False world0))
     = Inr [(''cog'', \<lparr>href = ''grid.tif'', media_type = GEOTIFF, roles = [''data'']\<rparr>)] \<and>
   files (snd (to_pystac_item example_env grid_cog ''kanawha-1'' ''/tmp/thumbnail.png'' False world0))
     ''/tmp/thumbnail.png'' = None"
proof -
  have b: "bbox_4326 example_env grid_cog world0 = (Inr [- 81, 38, - 71, 58], world0)"
    by (rule example_bbox_grid_cog)
  note T = to_pystac_item_assets [of example_env grid_cog "''kanawha-1''" "''/tmp/thumbnail.png''"
      True world0]
  note F = to_pystac_item_assets [of example_env grid_cog "''kanawha-1''" "''/tmp/thumbnail.png''"
      False world0]
  from T b obtain it1 w1 where
    r1: "to_pystac_item example_env grid_cog ''kanawha-1'' ''/tmp/thumbnail.png'' True world0
           = (Inr it1, w1)" by blast
  from F b obtain it2 w2 where
    r2: "to_pystac_item example_env grid_cog ''kanawha-1'' ''/tmp/thumbnail.png'' False world0
           = (Inr it2, w2)" by blast
  from T r1 have a1: "assets it1 =
              [(''cog'', \<lparr>href = ''grid.tif'', media_type = GEOTIFF, roles = [''data'']\<rparr>),
               (''thumbnail'',
                \<lparr>href = ''thumbnail.png'', media_type = PNG, roles = [''thumbnail'']\<rparr>)]"
    and w1: "w1 = snd (create_thumbnail example_env grid_cog ''/tmp/thumbnail.png'' 4
                         (world0\<lparr>ticks := ticks world0 + 2\<rparr>))"
    by simp_all
  from F r2 have a2: "assets it2 =
              [(''cog'', \<lparr>href = ''grid.tif'', media_type = GEOTIFF, roles = [''data'']\<rparr>)]"
    and w2: "w2 = world0\<lparr>ticks := ticks world0 + 2\<rparr>"
    by simp_all
  have f1: "files w1 ''/tmp/thumbnail.png'' = Some [137, 80, 78, 71]"
    by (simp add: w1 example_create_thumbnail)
  have f2: "files w2 ''/tmp/thumbnail.png'' = None"
    by (simp add: w2 world0_def)
  show ?thesis
    by (simp add: r1 r2 a1 a2 f1 f2)
qed

text \<open>
  C8. In a returned item the geometry is the footprint stored at construction, the bounding
  box is what \<^verbatim>\<open>bbox_4326\<close> computes at the time of the call, the datetime is the
  descriptor's \<^verbatim>\<open>temporal\<close>, and the extensions are the three fixed schema references.
  The example reassigns the native bounding box after construction: the item's bounding box
  follows it, the geometry does not.
\<close>

theorem to_pystac_item_fields:
  assumes "to_pystac_item E self i path nt w = (Inr it, w')"
  shows "geometry it = footprint_4326 self \<and>
         fst (bbox_4326 E self w) = Inr (item_bbox it) \<and>
         item_datetime it = temporal self \<and>
         stac_extensions it =
           [''https://stac-extensions.github.io/projection/v1.0.0/schema.json'',
            ''https://stac-extensions.github.io/storage/v1.0.0/schema.json'',
            ''https://stac-extensions.github.io/processing/v1.1.0/schema.json'']"
proof -
  obtain r where r: "bbox_4326 E self w = (r, w)" using bbox_4326_result by blast
  show ?thesis
  proof (cases r)
    case (Inl e)
    with r assms to_pystac_item_fail [of E self w e w i path nt] show ?thesis by simp
  next
    case (Inr bb)
    with r have b: "bbox_4326 E self w = (Inr bb, w)" by simp
    from to_pystac_item_value [OF b, of i path nt] assms b show ?thesis
      by auto
  qed
qed

theorem to_pystac_item_fields_witness:
  "map_sum id (\<lambda>it. (geometry it, item_bbox it, item_datetime it))
     (fst (to_pystac_item example_env (grid_cog\<lparr>bbox := [0, 0, 20, 40]\<rparr>) ''kanawha-1''
             ''/tmp/thumbnail.png'' False world0))
     = Inr (footprint_4326 grid_cog, [- 81, 38, - 61, 78], Datetime 1000)"
proof -
  have b: "bbox_4326 example_env (grid_cog\<lparr>bbox := [0, 0, 20, 40]\<rparr>) world0
             = (Inr [- 81, 38, - 61, 78], world0)"
    using bbox_4326_value [of "grid_cog\<lparr>bbox := [0, 0, 20, 40]\<rparr>" 0 0 20 40 example_env
        "\<lambda>x y. (x - 81, y + 38)" world0]
    by (simp add: example_from_crs grid_cog_def)
  from to_pystac_item_value [OF b, of "''kanawha-1''" "''/tmp/thumbnail.png''" False]
  obtain it w' where
    r: "to_pystac_item example_env (grid_cog\<lparr>bbox := [0, 0, 20, 40]\<rparr>) ''kanawha-1''
             ''/tmp/thumbnail.png'' False world0 = (Inr it, w')" by blast
  from to_pystac_item_fields [OF r] b
  have "geometry it = footprint_4326 grid_cog" "item_bbox it = [- 81, 38, - 61, 78]"
    "item_datetime it = Datetime 1000"
    by (simp_all add: grid_cog_def)
  with r show ?thesis by simp
qed

section \<open>The remote-file factory\<close>

lemma bind_io_return: "bind_io (return_io x) f w = f x w"
  by (simp add: bind_io_def return_io_def)

lemma bind_io_assoc: "bind_io (bind_io m f) g = bind_io m (\<lambda>x. bind_io (f x) g)"
  by (rule ext) (simp add: bind_io_def split: prod.splits sum.splits)

lemma bind_io_now:
  "bind_io (datetime_now E) f w = f (clock E (ticks w)) (w\<lparr>ticks := Suc (ticks w)\<rparr>)"
  by (simp add: bind_io_def datetime_now_def)

lemma example_open_missing:
  "rasterio_open example_env (''/vsis3/'' @ ''frd'' @ ''/'' @ ''missing.tif'')
     = Inl (PyException ''RasterioIOError'' ''No such file or directory'')"
  by (simp add: example_env_def)

lemma example_from_s3:
  "from_s3 example_env ''frd'' ''grid.tif'' ''Blues'' world0
     = (Inr (Some (grid_cog\<lparr>temporal := Datetime 1001\<rparr>)), world0\<lparr>ticks := 2\<rparr>)"
proof -
  have op: "rasterio_open example_env ''/vsis3/frd/grid.tif'' = Inr grid_tif"
    by (simp add: example_env_def)
  have g: "get_object_datetime example_env ''frd'' ''grid.tif'' = Inr (Datetime 500)"
    by (simp add: example_env_def)
  have ds: "ds_bounds grid_tif = (0, 0, 10, 20)" "ds_crs grid_tif = Some ''EPSG:26917''"
    "ds_tags grid_tif ''TIFFTAG_DATETIME'' = []" "ds_res grid_tif = (1, 1)"
    by (simp_all add: grid_tif_def)
  have fp: "create_footprint example_env
        \<lparr>uri = ''s3://frd/grid.tif'', bbox = [0, 0, 10, 20], temporal = Datetime 1001,
         resolution = (1, 1), projection = ''EPSG:26917''\<rparr> w
      = (Inr (Polygon [[- 81, 38], [- 81, 58], [- 71, 58], [- 71, 38]]), w)" for w
    by (rule create_footprint_value) (simp add: example_bbox_4326)
  have sm: "shapely_mapping example_env (Polygon [[- 81, 38], [- 81, 58], [- 71, 58], [- 71, 38]])
      = GeoJSON ''Polygon'' [[(- 81, 38), (- 81, 58), (- 71, 58), (- 71, 38), (- 81, 38)]]"
    by (simp add: example_env_def)
  have ck: "clock example_env n = Datetime (1000 + int n)" for n by (simp add: example_env_def)
  have init: "COG_init example_env ''s3://frd/grid.tif'' [0, 0, 10, 20] t (1, 1) ''EPSG:26917''
      ''Blues'' (world0\<lparr>ticks := 1\<rparr>)
     = (Inr (grid_cog\<lparr>temporal := Datetime 1001\<rparr>), world0\<lparr>ticks := 2\<rparr>)" for t
    by (simp add: COG_init_def bind_io_def datetime_now_def Let_def world0_def ck
        fp sm return_io_def grid_cog_def)
  have body: "from_s3_body example_env ''frd'' ''grid.tif'' ''Blues'' world0
     = (Inr (grid_cog\<lparr>temporal := Datetime 1001\<rparr>), world0\<lparr>ticks := 2\<rparr>)"
    using init [of "TemporalDatetime (Datetime 1000)"]
    by (simp add: from_s3_body_def Let_def bind_io_lift op ds crs_to_string_def g
        bind_io_assoc bind_io_return bind_io_now ck world0_def)
  show ?thesis
    by (simp add: from_s3_def try_except_def bind_io_def return_io_def body)
qed

text \<open>
  C5. \<^verbatim>\<open>from_s3\<close> never raises. Whenever a step of its body raises (opening the raster,
  reading the CRS, asking for the object's date, building the descriptor), the message is
  printed and the result is \<^verbatim>\<open>None\<close>; the caller sees nothing else of the failure.
\<close>

theorem from_s3_never_raises:
  "(\<forall>e. fst (from_s3 E bucket_name file_key cm w) \<noteq> Inl e) \<and>
   (\<forall>e w'. from_s3_body E bucket_name file_key cm w = (Inl e, w') \<longrightarrow>
      from_s3 E bucket_name file_key cm w
        = (Inr None, w'\<lparr>stdout := stdout w' @ [''An error occurred: '' @ exn_msg e]\<rparr>)) \<and>
   (\<forall>e. rasterio_open E (''/vsis3/'' @ bucket_name @ ''/'' @ file_key) = Inl e \<longrightarrow>
      from_s3 E bucket_name file_key cm w
        = (Inr None, w\<lparr>stdout := stdout w @ [''An error occurred: '' @ exn_msg e]\<rparr>))"
proof (intro conjI allI impI)
  fix e
  show "fst (from_s3 E bucket_name file_key cm w) \<noteq> Inl e"
    by (simp add: from_s3_def try_except_def bind_io_def return_io_def print_def
        split: prod.splits sum.splits)
next
  fix e w'
  assume "from_s3_body E bucket_name file_key cm w = (Inl e, w')"
  then show "from_s3 E bucket_name file_key cm w
        = (Inr None, w'\<lparr>stdout := stdout w' @ [''An error occurred: '' @ exn_msg e]\<rparr>)"
    by (simp add: from_s3_def try_except_def bind_io_def return_io_def print_def)
next
  fix e
  assume "rasterio_open E (''/vsis3/'' @ bucket_name @ ''/'' @ file_key) = Inl e"
  then have "from_s3_body E bucket_name file_key cm w = (Inl e, w)"
    by (simp add: from_s3_body_def Let_def bind_io_lift)
  then show "from_s3 E bucket_name file_key cm w
        = (Inr None, w\<lparr>stdout := stdout w @ [''An error occurred: '' @ exn_msg e]\<rparr>)"
    by (simp add: from_s3_def try_except_def bind_io_def return_io_def print_def)
qed

theorem from_s3_never_raises_witness:
  "from_s3 example_env ''frd'' ''missing.tif'' ''Blues'' world0
     = (Inr None, world0\<lparr>stdout := [''An error occurred: No such file or directory'']\<rparr>)"
proof -
  have body: "from_s3_body example_env ''frd'' ''missing.tif'' ''Blues'' world0
      = (Inl (PyException ''RasterioIOError'' ''No such file or directory''), world0)"
    using example_open_missing by (simp add: from_s3_body_def Let_def bind_io_lift)
  from from_s3_never_raises [of example_env "''frd''" "''missing.tif''" "''Blues''" world0]
    body example_open_missing
  show ?thesis by (simp add: world0_def)
qed

text \<open>
  C6 says that a raster without a timestamp tag gets the object's last-modified time as its
  capture timestamp. The code evaluated on \<^verbatim>\<open>grid.tif\<close>, which has no tag and was last
  modified at time 500: the descriptor is built, and its timestamp is the clock reading 1001.
  Lines 81-84 do fetch the last-modified time, into a local that nothing reads.
\<close>

theorem from_s3_temporal_is_not_last_modified:
  "ds_tags grid_tif ''TIFFTAG_DATETIME'' = [] \<and>
   get_object_datetime example_env ''frd'' ''grid.tif'' = Inr (Datetime 500) \<and>
   map_sum id (map_option temporal) (fst (from_s3 example_env ''frd'' ''grid.tif'' ''Blues'' world0))
     = Inr (Some (Datetime 1001)) \<and>
   Datetime 1001 \<noteq> Datetime 500"
proof -
  have "ds_tags grid_tif ''TIFFTAG_DATETIME'' = []"
    by (simp add: grid_tif_def)
  moreover have "get_object_datetime example_env ''frd'' ''grid.tif'' = Inr (Datetime 500)"
    by (simp add: example_env_def)
  moreover have "map_sum id (map_option temporal)
      (fst (from_s3 example_env ''frd'' ''grid.tif'' ''Blues'' world0)) = Inr (Some (Datetime 1001))"
    by (simp add: example_from_s3)
  ultimately show ?thesis by simp
qed

section \<open>Dry rasters\<close>

lemma np_eq_ordinary: "np_eq (Finite x) (Some (Finite v)) = (x = v)"
  by simp

lemma np_eq_nan: "np_eq p (Some NaN) = False" "np_eq NaN n = False"
  by (simp, cases n) simp_all

lemma np_all_map:
  "np_all (map (map f) a) = (\<forall>row \<in> set a. \<forall>p \<in> set row. f p)"
  by (simp add: np_all_def list_all_iff)

lemma all_cells_dry_split:
  assumes "split_s3_path E (uri self) = Inr (bucket, key)"
  shows "all_cells_dry E self w =
     try_except (all_cells_dry_body E bucket key)
       (\<lambda>e. bind_io (print (''An error occurred: '' @ exn_msg e)) (\<lambda>u. return_io None)) w"
  using assms by (simp add: all_cells_dry_def bind_io_lift)

lemma try_except_none_Inl:
  assumes "m w = (Inl e, w)"
  shows "try_except m (\<lambda>e. bind_io (print (''An error occurred: '' @ exn_msg e))
            (\<lambda>u. return_io None)) w
         = (Inr None, w\<lparr>stdout := stdout w @ [''An error occurred: '' @ exn_msg e]\<rparr>)"
  using assms by (simp add: try_except_def bind_io_def print_def return_io_def)

lemma example_split:
  "split_s3_path example_env ''s3://frd/grid.tif'' = Inr (''frd'', ''grid.tif'')"
  "split_s3_path example_env ''s3://frd/rgb.tif'' = Inr (''frd'', ''rgb.tif'')"
  "split_s3_path example_env ''s3://frd/missing.tif'' = Inr (''frd'', ''missing.tif'')"
  "split_s3_path example_env ''s3://frd/broken.tif'' = Inr (''frd'', ''broken.tif'')"
  by (simp_all add: example_env_def)

lemma example_open:
  "rasterio_open example_env (''/vsis3/'' @ ''frd'' @ ''/'' @ ''grid.tif'') = Inr grid_tif"
  "rasterio_open example_env (''/vsis3/'' @ ''frd'' @ ''/'' @ ''rgb.tif'') = Inr rgb_tif"
  "rasterio_open example_env (''/vsis3/'' @ ''frd'' @ ''/'' @ ''missing.tif'')
     = Inl (PyException ''RasterioIOError'' ''No such file or directory'')"
  "rasterio_open example_env (''/vsis3/'' @ ''frd'' @ ''/'' @ ''broken.tif'') = Inr broken_tif"
  by (simp_all add: example_env_def)

lemma example_bands:
  "dataset_read_band grid_tif 1 = Inr dry_band"
  "dataset_read_band rgb_tif 1 = Inr wet_band"
  "py_index (ds_nodatavals grid_tif) 0 = Inr (Some (Finite (- 9999)))"
  "py_index (ds_nodatavals rgb_tif) 0 = Inr (Some (Finite (- 9999)))"
  "dataset_read_band broken_tif 1 = Inl (PyException ''RasterioIOError'' ''Read failed'')"
  by (simp_all add: dataset_read_band_def py_index_def grid_tif_def rgb_tif_def broken_tif_def)

text \<open>
  What \<^verbatim>\<open>all_cells_dry\<close> returns when the URI splits into bucket and key: if the raster
  opens and its first band and nodata value can be read, whether every cell of the first band
  equals the nodata value in the sense of numpy's \<^verbatim>\<open>==\<close>; if opening or reading fails,
  the message is printed and the result is \<^verbatim>\<open>None\<close>.
\<close>

lemma all_cells_dry_result:
  assumes "split_s3_path E (uri self) = Inr (bucket, key)"
  shows
   "(\<forall>ds raster_data nodata.
       rasterio_open E (''/vsis3/'' @ bucket @ ''/'' @ key) = Inr ds \<and>
       dataset_read_band ds 1 = Inr raster_data \<and>
       py_index (ds_nodatavals ds) 0 = Inr nodata \<longrightarrow>
       all_cells_dry E self w
         = (Inr (Some (\<forall>row \<in> set raster_data. \<forall>p \<in> set row. np_eq p nodata)), w)) \<and>
    (\<forall>e. rasterio_open E (''/vsis3/'' @ bucket @ ''/'' @ key) = Inl e \<longrightarrow>
       all_cells_dry E self w
         = (Inr None, w\<lparr>stdout := stdout w @ [''An error occurred: '' @ exn_msg e]\<rparr>)) \<and>
    (\<forall>ds e. rasterio_open E (''/vsis3/'' @ bucket @ ''/'' @ key) = Inr ds \<and>
       dataset_read_band ds 1 = Inl e \<longrightarrow>
       all_cells_dry E self w
         = (Inr None, w\<lparr>stdout := stdout w @ [''An error occurred: '' @ exn_msg e]\<rparr>))"
proof (intro conjI allI impI)
  fix ds raster_data nodata
  assume a: "rasterio_open E (''/vsis3/'' @ bucket @ ''/'' @ key) = Inr ds \<and>
       dataset_read_band ds 1 = Inr raster_data \<and>
       py_index (ds_nodatavals ds) 0 = Inr nodata"
  then have "all_cells_dry_body E bucket key w
      = (Inr (Some (\<forall>row \<in> set raster_data. \<forall>p \<in> set row. np_eq p nodata)), w)"
    by (simp add: all_cells_dry_body_def Let_def bind_io_lift return_io_def np_all_map)
  then show "all_cells_dry E self w
         = (Inr (Some (\<forall>row \<in> set raster_data. \<forall>p \<in> set row. np_eq p nodata)), w)"
    by (simp add: all_cells_dry_split [OF assms] try_except_def)
next
  fix e
  assume "rasterio_open E (''/vsis3/'' @ bucket @ ''/'' @ key) = Inl e"
  then have "all_cells_dry_body E bucket key w = (Inl e, w)"
    by (simp add: all_cells_dry_body_def Let_def bind_io_lift)
  then show "all_cells_dry E self w
         = (Inr None, w\<lparr>stdout := stdout w @ [''An error occurred: '' @ exn_msg e]\<rparr>)"
    unfolding all_cells_dry_split [OF assms] by (rule try_except_none_Inl)
next
  fix ds e
  assume "rasterio_open E (''/vsis3/'' @ bucket @ ''/'' @ key) = Inr ds \<and>
       dataset_read_band ds 1 = Inl e"
  then have "all_cells_dry_body E bucket key w = (Inl e, w)"
    by (simp add: all_cells_dry_body_def Let_def bind_io_lift)
  then show "all_cells_dry E self w
         = (Inr None, w\<lparr>stdout := stdout w @ [''An error occurred: '' @ exn_msg e]\<rparr>)"
    unfolding all_cells_dry_split [OF assms] by (rule try_except_none_Inl)
qed

lemma all_cells_dry_examples:
  "all_cells_dry example_env grid_cog world0 = (Inr (Some True), world0) \<and>
   all_cells_dry example_env rgb_cog world0 = (Inr (Some False), world0) \<and>
   all_cells_dry example_env missing_cog world0
     = (Inr None, world0\<lparr>stdout := [''An error occurred: No such file or directory'']\<rparr>) \<and>
   all_cells_dry example_env broken_cog world0
     = (Inr None, world0\<lparr>stdout := [''An error occurred: Read failed'']\<rparr>)"
proof -
  have s1: "split_s3_path example_env (uri grid_cog) = Inr (''frd'', ''grid.tif'')"
    and s2: "split_s3_path example_env (uri rgb_cog) = Inr (''frd'', ''rgb.tif'')"
    and s3: "split_s3_path example_env (uri missing_cog) = Inr (''frd'', ''missing.tif'')"
    and s4: "split_s3_path example_env (uri broken_cog) = Inr (''frd'', ''broken.tif'')"
    by (simp_all add: grid_cog_def rgb_cog_def missing_cog_def broken_cog_def example_split)
  have dry: "(\<forall>row \<in> set dry_band. \<forall>p \<in> set row. np_eq p (Some (Finite (- 9999)))) = True"
    by (simp add: dry_band_def)
  have wet: "(\<forall>row \<in> set wet_band. \<forall>p \<in> set row. np_eq p (Some (Finite (- 9999)))) = False"
    by (simp add: wet_band_def)
  have "all_cells_dry example_env grid_cog world0 = (Inr (Some True), world0)"
    using all_cells_dry_result [OF s1, of world0] example_open(1) example_bands(1,3) dry
    by simp
  moreover have "all_cells_dry example_env rgb_cog world0 = (Inr (Some False), world0)"
    using all_cells_dry_result [OF s2, of world0] example_open(2) example_bands(2,4) wet
    by simp
  moreover have "all_cells_dry example_env missing_cog world0
     = (Inr None, world0\<lparr>stdout := [''An error occurred: No such file or directory'']\<rparr>)"
    using all_cells_dry_result [OF s3, of world0] example_open(3)
    by (simp add: world0_def)
  moreover have "all_cells_dry example_env broken_cog world0
     = (Inr None, world0\<lparr>stdout := [''An error occurred: Read failed'']\<rparr>)"
    using all_cells_dry_result [OF s4, of world0] example_open(4) example_bands(5)
    by (simp add: world0_def)
  ultimately show ?thesis by simp
qed

text \<open>
  For a declared nodata value other than NaN, numpy's \<^verbatim>\<open>==\<close> is equality, and the
  property is true exactly when every cell of the first band is the nodata value.
\<close>

lemma np_eq_is_equality: "n \<noteq> NaN \<Longrightarrow> np_eq p (Some n) = (p = n)"
  by auto

lemma all_cells_dry_ordinary_nodata:
  assumes "split_s3_path E (uri self) = Inr (bucket, key)"
    and "rasterio_open E (''/vsis3/'' @ bucket @ ''/'' @ key) = Inr ds"
    and "dataset_read_band ds 1 = Inr raster_data"
    and "py_index (ds_nodatavals ds) 0 = Inr (Some n)"
    and "n \<noteq> NaN"
  shows "all_cells_dry E self w
           = (Inr (Some (\<forall>row \<in> set raster_data. \<forall>p \<in> set row. p = n)), w)"
proof -
  have "all_cells_dry E self w
          = (Inr (Some (\<forall>row \<in> set raster_data. \<forall>p \<in> set row. np_eq p (Some n))), w)"
    using all_cells_dry_result [OF assms(1), of w] assms(2,3,4) by blast
  moreover have "np_eq p (Some n) = (p = n)" for p
    by (rule np_eq_is_equality [OF assms(5)])
  ultimately show ?thesis
    by (simp only:)
qed

lemma example_nan:
  "split_s3_path example_env (uri nan_cog) = Inr (''frd'', ''nan.tif'')"
  "rasterio_open example_env (''/vsis3/'' @ ''frd'' @ ''/'' @ ''nan.tif'') = Inr nan_tif"
  "dataset_read_band nan_tif 1 = Inr (replicate 4 (replicate 8 NaN))"
  "py_index (ds_nodatavals nan_tif) 0 = Inr (Some NaN)"
  by (simp_all add: example_env_def nan_cog_def grid_cog_def nan_tif_def grid_tif_def
      dataset_read_band_def py_index_def)

text \<open>
  C7 says that \<^verbatim>\<open>all_cells_dry\<close> is true exactly when every pixel of the first band equals
  the declared nodata value. The code evaluated on \<^verbatim>\<open>nan.tif\<close>, whose declared nodata
  value is NaN and whose every cell is NaN: the raster opens, the band is read, every cell is
  the nodata value, and the property is \<^verbatim>\<open>False\<close>, because line 109 compares with
  \<^verbatim>\<open>==\<close> and NaN is not \<^verbatim>\<open>==\<close> to itself.
\<close>

theorem all_cells_dry_nan_nodata_is_false:
  "dataset_read_band nan_tif 1 = Inr (replicate 4 (replicate 8 NaN)) \<and>
   py_index (ds_nodatavals nan_tif) 0 = Inr (Some NaN) \<and>
   all_cells_dry example_env nan_cog world0 = (Inr (Some False), world0)"
proof -
  have "all_cells_dry example_env nan_cog world0
          = (Inr (Some (\<forall>row \<in> set (replicate 4 (replicate 8 NaN)). \<forall>p \<in> set row.
                          np_eq p (Some NaN))), world0)"
    using all_cells_dry_result [OF example_nan(1), of world0] example_nan(2,3,4)
    by blast
  then have "all_cells_dry example_env nan_cog world0 = (Inr (Some False), world0)"
    by simp
  with example_nan(3,4) show ?thesis by simp
qed

section \<open>The thumbnail\<close>

lemma reproject_bands_length:
  "reproject_bands E ds data tr idxs r = Inr r' \<Longrightarrow> length r' = length r"
  by (induction idxs arbitrary: r) (auto split: sum.splits)

lemma np_empty_length: "np_empty E n h w d = Inr r \<Longrightarrow> length r = n"
  by (auto simp add: np_empty_def split: if_splits)

lemma np_squeeze0_Inr: "np_squeeze0 r = Inr b \<Longrightarrow> length r = 1"
  by (auto simp add: np_squeeze0_def split: list.splits)

lemma np_squeeze0_fail:
  "length r \<noteq> 1 \<Longrightarrow>
   np_squeeze0 r = Inl (PyException ''ValueError''
     ''cannot select an axis to squeeze out which has size not equal to one'')"
  by (cases r; simp add: np_squeeze0_def split: list.splits)

lemma imsave_io_fail: "imsave_io E path img cm w = (Inl e, w') \<Longrightarrow> w' = w"
  by (auto simp add: imsave_io_def split: sum.splits)

lemma create_thumbnail_body_fail:
  "create_thumbnail_body E self path factor w = (Inl e, w') \<Longrightarrow> w' = w"
  unfolding create_thumbnail_body_def Let_def bind_io_lift
  by (auto split: sum.splits dest: imsave_io_fail)

lemma create_thumbnail_body_Inr:
  assumes "create_thumbnail_body E self path factor w = (Inr u, w')"
  shows "\<exists>ds. rasterio_open E (str_replace ''s3://'' ''/vsis3/'' (uri self)) = Inr ds \<and>
              ds_count ds = 1"
  using assms
  unfolding create_thumbnail_body_def Let_def bind_io_lift
  by (auto split: sum.splits dest!: reproject_bands_length np_empty_length np_squeeze0_Inr)

lemma create_thumbnail_caught:
  assumes "create_thumbnail_body E self path factor w = (Inl e, w)"
  shows "create_thumbnail E self path factor w
           = (Inr (), w\<lparr>stdout := stdout w @ [''An error occurred: '' @ exn_msg e]\<rparr>)"
  using assms by (simp add: create_thumbnail_def try_except_def print_def)

lemma create_thumbnail_done:
  assumes "create_thumbnail_body E self path factor w = (Inr u, w')"
  shows "create_thumbnail E self path factor w = (Inr u, w')"
  using assms by (simp add: create_thumbnail_def try_except_def)

lemma example_open_rgb:
  "rasterio_open example_env (str_replace ''s3://'' ''/vsis3/'' (uri rgb_cog)) = Inr rgb_tif"
  by (simp add: example_env_def rgb_cog_def grid_cog_def)

lemma example_open_grid_cog:
  "rasterio_open example_env (str_replace ''s3://'' ''/vsis3/'' (uri grid_cog)) = Inr grid_tif"
  by (simp add: example_env_def grid_cog_def)

lemma example_body_rgb:
  "create_thumbnail_body example_env rgb_cog ''/tmp/thumbnail.png'' 4 world0
     = (Inl (PyException ''ValueError''
           ''cannot select an axis to squeeze out which has size not equal to one''), world0)"
proof -
  have rd: "ds_read rgb_tif = Inr [wet_band, dry_band]" "ds_width rgb_tif = 8"
    "ds_height rgb_tif = 4" "ds_count rgb_tif = 2"
    by (simp_all add: rgb_tif_def grid_tif_def)
  have rp: "reproject example_env src dst a b c d r = Inr (map (map (\<lambda>c. Finite (- 9999))) dst)"
    for src dst a b c d r
    by (simp add: example_env_def)
  have up: "[Suc 0 ..< 2] = [Suc 0]" by (simp add: upt_rec)
  have rb: "reproject_bands example_env rgb_tif [wet_band, dry_band] tr [Suc 0, 2] [b1, b2]
              = Inr [map (map (\<lambda>c. Finite (- 9999))) b1, map (map (\<lambda>c. Finite (- 9999))) b2]"
    for tr b1 b2
    by (simp add: py_index_def rp)
  have rep: "replicate 2 x = [x, x]" for x :: band
    by (simp add: numeral_2_eq_2)
  show ?thesis
    unfolding create_thumbnail_body_def
    by (simp add: example_open_rgb bind_io_lift rd floordiv_def truediv_def np_empty_def
        Let_def up rep py_index_def rp np_squeeze0_def)
qed

text \<open>
  C10. For a raster whose band count is not 1, \<^verbatim>\<open>np.squeeze(resampled, axis=0)\<close> raises on
  any array with that many bands, the body of \<^verbatim>\<open>create_thumbnail\<close> raises before
  \<^verbatim>\<open>imsave\<close>, the exception is caught and printed, the call returns nothing and no file is
  written. Conversely, if the call changes the files, the raster opened and has exactly one
  band.
\<close>

theorem create_thumbnail_needs_single_band:
  "(\<forall>ds. rasterio_open E (str_replace ''s3://'' ''/vsis3/'' (uri self)) = Inr ds \<and>
         ds_count ds \<noteq> 1 \<longrightarrow>
      (\<forall>r :: band list. length r = ds_count ds \<longrightarrow>
         np_squeeze0 r = Inl (PyException ''ValueError''
           ''cannot select an axis to squeeze out which has size not equal to one'')) \<and>
      (\<exists>e. create_thumbnail_body E self path factor w = (Inl e, w) \<and>
           create_thumbnail E self path factor w
             = (Inr (), w\<lparr>stdout := stdout w @ [''An error occurred: '' @ exn_msg e]\<rparr>)) \<and>
      files (snd (create_thumbnail E self path factor w)) = files w) \<and>
   (files (snd (create_thumbnail E self path factor w)) \<noteq> files w \<longrightarrow>
      (\<exists>ds. rasterio_open E (str_replace ''s3://'' ''/vsis3/'' (uri self)) = Inr ds \<and>
            ds_count ds = 1))"
proof -
  obtain res w' where body: "create_thumbnail_body E self path factor w = (res, w')"
    by (cases "create_thumbnail_body E self path factor w") blast
  have raised: "\<exists>e. create_thumbnail_body E self path factor w = (Inl e, w) \<and>
           create_thumbnail E self path factor w
             = (Inr (), w\<lparr>stdout := stdout w @ [''An error occurred: '' @ exn_msg e]\<rparr>)"
    if "\<not> (\<exists>ds. rasterio_open E (str_replace ''s3://'' ''/vsis3/'' (uri self)) = Inr ds \<and>
            ds_count ds = 1)"
  proof (cases res)
    case (Inl e)
    with body have b: "create_thumbnail_body E self path factor w = (Inl e, w)"
      using create_thumbnail_body_fail by blast
    with create_thumbnail_caught [OF b] show ?thesis by blast
  next
    case (Inr u)
    with body that create_thumbnail_body_Inr show ?thesis by blast
  qed
  show ?thesis
  proof (intro conjI allI impI)
    fix ds and r :: "band list"
    assume "rasterio_open E (str_replace ''s3://'' ''/vsis3/'' (uri self)) = Inr ds \<and>
         ds_count ds \<noteq> 1" and "length r = ds_count ds"
    then show "np_squeeze0 r = Inl (PyException ''ValueError''
           ''cannot select an axis to squeeze out which has size not equal to one'')"
      using np_squeeze0_fail by simp
  next
    fix ds
    assume a: "rasterio_open E (str_replace ''s3://'' ''/vsis3/'' (uri self)) = Inr ds \<and>
         ds_count ds \<noteq> 1"
    then have n: "\<not> (\<exists>ds. rasterio_open E (str_replace ''s3://'' ''/vsis3/'' (uri self)) = Inr ds \<and>
            ds_count ds = 1)" by auto
    from raised [OF n]
    show "\<exists>e. create_thumbnail_body E self path factor w = (Inl e, w) \<and>
           create_thumbnail E self path factor w
             = (Inr (), w\<lparr>stdout := stdout w @ [''An error occurred: '' @ exn_msg e]\<rparr>)" .
    from raised [OF n]
    show "files (snd (create_thumbnail E self path factor w)) = files w" by auto
  next
    assume ch: "files (snd (create_thumbnail E self path factor w)) \<noteq> files w"
    show "\<exists>ds. rasterio_open E (str_replace ''s3://'' ''/vsis3/'' (uri self)) = Inr ds \<and>
            ds_count ds = 1"
    proof (rule ccontr)
      assume "\<not> ?thesis"
      from raised [OF this] ch show False by auto
    qed
  qed
qed

theorem create_thumbnail_needs_single_band_witness:
  "rasterio_open example_env (str_replace ''s3://'' ''/vsis3/'' (uri rgb_cog)) = Inr rgb_tif \<and>
   ds_count rgb_tif = 2 \<and>
   create_thumbnail example_env rgb_cog ''/tmp/thumbnail.png'' 4 world0
     = (Inr (), world0\<lparr>stdout := [''An error occurred: cannot select an axis to squeeze out which has size not equal to one'']\<rparr>) \<and>
   files (snd (create_thumbnail example_env grid_cog ''/tmp/thumbnail.png'' 4 world0)) \<noteq> files world0 \<and>
   rasterio_open example_env (str_replace ''s3://'' ''/vsis3/'' (uri grid_cog)) = Inr grid_tif \<and>
   ds_count grid_tif = 1"
proof -
  have c2: "ds_count rgb_tif = 2" by (simp add: rgb_tif_def)
  have c1: "ds_count grid_tif = 1" by (simp add: grid_tif_def)
  have ch: "files (snd (create_thumbnail example_env grid_cog ''/tmp/thumbnail.png'' 4 world0))
              \<noteq> files world0"
  proof
    assume "files (snd (create_thumbnail example_env grid_cog ''/tmp/thumbnail.png'' 4 world0))
              = files world0"
    then have "files (snd (create_thumbnail example_env grid_cog ''/tmp/thumbnail.png'' 4 world0))
                 ''/tmp/thumbnail.png'' = files world0 ''/tmp/thumbnail.png''" by simp
    then show False by (simp add: example_create_thumbnail world0_def)
  qed
  from create_thumbnail_needs_single_band [of example_env rgb_cog "''/tmp/thumbnail.png''" 4 world0]
    example_open_rgb c2
  obtain e where
    b: "create_thumbnail_body example_env rgb_cog ''/tmp/thumbnail.png'' 4 world0 = (Inl e, world0)"
    and c: "create_thumbnail example_env rgb_cog ''/tmp/thumbnail.png'' 4 world0
       = (Inr (), world0\<lparr>stdout := stdout world0 @ [''An error occurred: '' @ exn_msg e]\<rparr>)"
    by auto
  from b example_body_rgb have e: "e = PyException ''ValueError''
           ''cannot select an axis to squeeze out which has size not equal to one''"
    by simp
  have r: "create_thumbnail example_env rgb_cog ''/tmp/thumbnail.png'' 4 world0
     = (Inr (), world0\<lparr>stdout := [''An error occurred: cannot select an axis to squeeze out which has size not equal to one'']\<rparr>)"
    unfolding c e by (simp add: world0_def)
  from create_thumbnail_needs_single_band [of example_env grid_cog "''/tmp/thumbnail.png''" 4 world0]
    ch
  have "\<exists>ds. rasterio_open example_env (str_replace ''s3://'' ''/vsis3/'' (uri grid_cog)) = Inr ds \<and>
            ds_count ds = 1" by blast
  with example_open_rgb example_open_grid_cog c1 c2 r ch show ?thesis by simp
qed

end
